theory Spec2Isabelle
  imports Main "HOL-Library.Sublist" "HOL-Library.Multiset"
begin

section \<open>The pattern catalog\<close>

text \<open>
  \<^verbatim>\<open>export type PatternCategory = "creational" | "structural" | "behavioral";\<close>
\<close>

datatype PatternCategory = creational | structural | behavioral

text \<open>
  The \<^verbatim>\<open>Pattern\<close> interface. The catalog functions read \<^verbatim>\<open>id\<close> and
  \<^verbatim>\<open>category\<close>, and the integrity rule reads \<^verbatim>\<open>relatedPatterns\<close>; the record
  keeps these and the display name. The other members of the interface (description,
  intent, motivation, structure, participants, collaboration, consequences,
  implementation, useCases, example, code) are display text that no catalog function
  inspects. The field \<^verbatim>\<open>id\<close> is written \<open>id'\<close>, since \<open>id\<close> is the identity
  function of HOL.
\<close>

record Pattern =
  id' :: string
  name :: string
  category :: PatternCategory
  relatedPatterns :: "string list"

subsection \<open>creational.ts\<close>

definition singletonPattern :: Pattern where
  "singletonPattern = \<lparr> id' = ''singleton'', name = ''Singleton'', category = creational,
     relatedPatterns = [''factory-method'', ''abstract-factory'', ''prototype''] \<rparr>"

definition factoryMethodPattern :: Pattern where
  "factoryMethodPattern = \<lparr> id' = ''factory-method'', name = ''Factory Method'',
     category = creational,
     relatedPatterns = [''abstract-factory'', ''prototype'', ''singleton''] \<rparr>"

definition builderPattern :: Pattern where
  "builderPattern = \<lparr> id' = ''builder'', name = ''Builder'', category = creational,
     relatedPatterns = [''abstract-factory'', ''composite''] \<rparr>"

definition abstractFactoryPattern :: Pattern where
  "abstractFactoryPattern = \<lparr> id' = ''abstract-factory'', name = ''Abstract Factory'',
     category = creational,
     relatedPatterns = [''factory-method'', ''singleton'', ''prototype''] \<rparr>"

definition prototypePattern :: Pattern where
  "prototypePattern = \<lparr> id' = ''prototype'', name = ''Prototype'', category = creational,
     relatedPatterns = [''abstract-factory'', ''composite'', ''decorator''] \<rparr>"

definition creationalPatterns :: "Pattern list" where
  "creationalPatterns =
     [singletonPattern, factoryMethodPattern, builderPattern, abstractFactoryPattern,
      prototypePattern]"

subsection \<open>structural.ts\<close>

definition decoratorPattern :: Pattern where
  "decoratorPattern = \<lparr> id' = ''decorator'', name = ''Decorator'', category = structural,
     relatedPatterns = [''adapter'', ''composite'', ''strategy''] \<rparr>"

definition adapterPattern :: Pattern where
  "adapterPattern = \<lparr> id' = ''adapter'', name = ''Adapter'', category = structural,
     relatedPatterns = [''decorator'', ''proxy''] \<rparr>"

definition compositePattern :: Pattern where
  "compositePattern = \<lparr> id' = ''composite'', name = ''Composite'', category = structural,
     relatedPatterns = [''decorator''] \<rparr>"

definition facadePattern :: Pattern where
  "facadePattern = \<lparr> id' = ''facade'', name = ''Facade'', category = structural,
     relatedPatterns = [''adapter'', ''abstract-factory''] \<rparr>"

definition proxyPattern :: Pattern where
  "proxyPattern = \<lparr> id' = ''proxy'', name = ''Proxy'', category = structural,
     relatedPatterns = [''adapter'', ''decorator''] \<rparr>"

definition structuralPatterns :: "Pattern list" where
  "structuralPatterns =
     [decoratorPattern, adapterPattern, compositePattern, facadePattern, proxyPattern]"

subsection \<open>behavioral.ts\<close>

definition observerPattern :: Pattern where
  "observerPattern = \<lparr> id' = ''observer'', name = ''Observer'', category = behavioral,
     relatedPatterns = [''singleton''] \<rparr>"

definition strategyPattern :: Pattern where
  "strategyPattern = \<lparr> id' = ''strategy'', name = ''Strategy'', category = behavioral,
     relatedPatterns = [''state''] \<rparr>"

definition commandPattern :: Pattern where
  "commandPattern = \<lparr> id' = ''command'', name = ''Command'', category = behavioral,
     relatedPatterns = [''composite'', ''prototype''] \<rparr>"

definition statePattern :: Pattern where
  "statePattern = \<lparr> id' = ''state'', name = ''State'', category = behavioral,
     relatedPatterns = [''strategy'', ''singleton''] \<rparr>"

definition behavioralPatterns :: "Pattern list" where
  "behavioralPatterns = [observerPattern, strategyPattern, commandPattern, statePattern]"

subsection \<open>The index module: allPatterns and its two queries\<close>

definition allPatterns :: "Pattern list" where
  "allPatterns = creationalPatterns @ structuralPatterns @ behavioralPatterns"

text \<open>
  \<^verbatim>\<open>allPatterns.find((pattern) => pattern.id === id)\<close>: the first record that matches,
  or \<^verbatim>\<open>undefined\<close>, here \<open>None\<close>.
\<close>

definition getPatternById :: "string \<Rightarrow> Pattern option" where
  "getPatternById i = find (\<lambda>pattern. id' pattern = i) allPatterns"


lemmas pattern_defs =
  singletonPattern_def factoryMethodPattern_def builderPattern_def
  abstractFactoryPattern_def prototypePattern_def decoratorPattern_def adapterPattern_def
  compositePattern_def facadePattern_def proxyPattern_def observerPattern_def
  strategyPattern_def commandPattern_def statePattern_def

lemmas catalog_defs =
  allPatterns_def creationalPatterns_def structuralPatterns_def behavioralPatterns_def

section \<open>The execution sandbox\<close>

text \<open>
  \<^verbatim>\<open>interface ExecutionResult { output: string[]; error?: string }\<close>. The field
  \<^verbatim>\<open>output\<close> is written \<open>output'\<close>, since \<open>output\<close> is a keyword of the theory
  language; an absent \<^verbatim>\<open>error\<close> is \<open>None\<close>.
\<close>

record ExecutionResult =
  output' :: "string list"
  error :: "string option"

definition EXECUTION_TIMEOUT :: int where
  "EXECUTION_TIMEOUT = 5000"

definition MIN_EXECUTION_INTERVAL :: int where
  "MIN_EXECUTION_INTERVAL = 1000"

subsection \<open>Values handed to the console, and sanitizeOutput\<close>

text \<open>
  \<open>sanitizeOutput\<close> takes a value of type \<^verbatim>\<open>unknown\<close> and looks at it in three ways
  only: \<^verbatim>\<open>typeof value\<close>, the built-in \<^verbatim>\<open>JSON.stringify(value, null, 2)\<close> and the
  built-in \<^verbatim>\<open>String(value)\<close>. The built-ins belong to the language, not to the
  repository, so a value is represented by what they give for it:
  \<^item> \<open>StringValue s\<close>: \<^verbatim>\<open>typeof value === 'string'\<close>, with its characters;
  \<^item> \<open>ObjectValue json str\<close>: a non-null value with \<^verbatim>\<open>typeof value === 'object'\<close>
    (a plain object, an array, ...); \<open>json\<close> is the text \<^verbatim>\<open>JSON.stringify\<close> returns
    for it, or \<open>None\<close> when \<^verbatim>\<open>JSON.stringify\<close> throws (a cyclic structure, a
    BigInt inside), and \<open>str\<close> is \<^verbatim>\<open>String(value)\<close>;
  \<^item> \<open>OtherValue str\<close>: anything else (number, boolean, undefined, null, bigint,
    symbol, function), with \<^verbatim>\<open>String(value)\<close>.
\<close>

datatype jsvalue =
    StringValue string
  | ObjectValue "string option" string
  | OtherValue string

text \<open>
  \<^verbatim>\<open>value.replace(/c/g, r)\<close> for a single character \<open>c\<close>: every occurrence, left to
  right. A string is a list of 8-bit characters; the characters that the sandbox tests
  are ASCII, and in UTF-8 no ASCII byte occurs inside the encoding of another character.
\<close>

fun replaceAll :: "char \<Rightarrow> string \<Rightarrow> string \<Rightarrow> string" where
  "replaceAll c r [] = []"
| "replaceAll c r (x # xs) = (if x = c then r @ replaceAll c r xs else x # replaceAll c r xs)"

text \<open>
  The five \<^verbatim>\<open>replace\<close> calls are chained in the order of the source: \<^verbatim>\<open><\<close> first,
  \<^verbatim>\<open>/\<close> last. \<open>CHR 0x22\<close> is the double quote and \<open>CHR 0x27\<close> the single quote.
\<close>

fun sanitizeOutput :: "jsvalue \<Rightarrow> string" where
  "sanitizeOutput (StringValue v) =
     replaceAll CHR ''/'' ''&#x2F;''
       (replaceAll (CHR 0x27) ''&#x27;''
         (replaceAll (CHR 0x22) ''&quot;''
           (replaceAll CHR ''>'' ''&gt;''
             (replaceAll CHR ''<'' ''&lt;'' v))))"
| "sanitizeOutput (ObjectValue json str) = (case json of Some text \<Rightarrow> text | None \<Rightarrow> str)"
| "sanitizeOutput (OtherValue str) = str"

text \<open>\<^verbatim>\<open>Array.prototype.join(sep)\<close> on an array of strings.\<close>

fun join :: "string \<Rightarrow> string list \<Rightarrow> string" where
  "join sep [] = []"
| "join sep [x] = x"
| "join sep (x # y # ys) = x @ sep @ join sep (y # ys)"

subsection \<open>The console and the process-wide state\<close>

datatype console_method = ConsoleLog | ConsoleError | ConsoleWarn

text \<open>
  What a console member is bound to: a function that was there before the call
  (\<open>Native f\<close>, of which only the identity \<open>f\<close> matters), or one of the three arrow
  functions that \<^verbatim>\<open>execute\<close> installs (\<open>Capture m\<close> is the one assigned to member \<open>m\<close>).
\<close>

datatype 'f handler = Native 'f | Capture console_method

record 'f console =
  console_log :: "'f handler"
  console_error :: "'f handler"
  console_warn :: "'f handler"

text \<open>
  The state shared by all calls: the static field \<^verbatim>\<open>lastExecution\<close> of the class and the
  global \<^verbatim>\<open>console\<close> object.
\<close>

record 'f globals =
  lastExecution :: int
  console :: "'f console"

text \<open>
  \<open>checkRateLimit\<close>; the argument \<open>now\<close> is the reading of \<^verbatim>\<open>Date.now()\<close>. The result
  is the returned boolean and the state after the call.
\<close>

definition checkRateLimit :: "int \<Rightarrow> 'f globals \<Rightarrow> bool \<times> 'f globals" where
  "checkRateLimit now g =
     (if now - lastExecution g < MIN_EXECUTION_INTERVAL then (False, g)
      else (True, g\<lparr>lastExecution := now\<rparr>))"

subsection \<open>What evaluating a source text does\<close>

text \<open>
  The sandbox hands the source text to the built-in \<^verbatim>\<open>eval\<close> and sees of the evaluation
  only this: the calls of \<^verbatim>\<open>console.log\<close>, \<^verbatim>\<open>console.error\<close> and \<^verbatim>\<open>console.warn\<close> that
  it makes, in order, each with its arguments, and the way it ends. It ends by
  returning, by throwing a value, or not at all (\<^verbatim>\<open>while (true) {}\<close>). The number is
  the time in milliseconds that the synchronous evaluation takes. A JavaScript engine
  is therefore a function from source texts to values of this type, and it is a
  parameter of the model.

  A thrown value is represented by what the \<^verbatim>\<open>catch\<close> block reads from it:
  \<open>ErrorInstance message\<close> when \<^verbatim>\<open>error instanceof Error\<close> (with \<^verbatim>\<open>error.message\<close>),
  \<open>NonError str\<close> for another value (with \<^verbatim>\<open>String(error)\<close>), and \<open>Unprintable\<close> when
  building the template literal itself throws (\<^verbatim>\<open>throw Object.create(null)\<close>, for which
  \<^verbatim>\<open>String(error)\<close> raises a TypeError).
\<close>

datatype thrown = ErrorInstance string | NonError string | Unprintable

datatype evaluation =
    Returns "(console_method \<times> jsvalue list) list" nat
  | Throws "(console_method \<times> jsvalue list) list" thrown nat
  | Diverges

subsection \<open>One call of execute\<close>

text \<open>
  A promise is settled by the first call of \<^verbatim>\<open>resolve\<close>, or is rejected when its
  executor throws. The model records every such event with the time at which it
  happens, so that how many there are is a property to be proved.
\<close>

datatype settlement = Resolved ExecutionResult | Rejected

text \<open>
  The variables of one call: the global state, the array \<^verbatim>\<open>logs\<close>, the flag
  \<^verbatim>\<open>completed\<close>, the pending timer (the time at which it is due, \<open>None\<close> when there
  is none or it has been cleared), the current time, and the settlements so far.
\<close>

record 'f run =
  globals :: "'f globals"
  logs :: "string list"
  completed :: bool
  timeoutId :: "int option"
  clock :: int
  settlements :: "(int \<times> settlement) list"

text \<open>The line that the arrow function installed for member \<open>m\<close> pushes.\<close>

fun capture :: "console_method \<Rightarrow> jsvalue list \<Rightarrow> string" where
  "capture ConsoleLog args = join '' '' (map sanitizeOutput args)"
| "capture ConsoleError args = ''ERROR: '' @ join '' '' (map sanitizeOutput args)"
| "capture ConsoleWarn args = ''WARNING: '' @ join '' '' (map sanitizeOutput args)"

definition capturing :: "'f console" where
  "capturing = \<lparr> console_log = Capture ConsoleLog, console_error = Capture ConsoleError,
                  console_warn = Capture ConsoleWarn \<rparr>"

fun bound_to :: "console_method \<Rightarrow> 'f console \<Rightarrow> 'f handler" where
  "bound_to ConsoleLog c = console_log c"
| "bound_to ConsoleError c = console_error c"
| "bound_to ConsoleWarn c = console_warn c"

text \<open>
  The evaluated code calls a console member: whatever is bound to the member runs. A
  capturing function pushes its line; a native function writes to the real console and
  leaves \<^verbatim>\<open>logs\<close> alone.
\<close>

fun invoke :: "console_method \<times> jsvalue list \<Rightarrow> 'f run \<Rightarrow> 'f run" where
  "invoke (m, args) r =
     (case bound_to m (console (globals r)) of
        Capture m' \<Rightarrow> r\<lparr>logs := logs r @ [capture m' args]\<rparr>
      | Native f \<Rightarrow> r)"

definition resolve :: "ExecutionResult \<Rightarrow> 'f run \<Rightarrow> 'f run" where
  "resolve v r = r\<lparr>settlements := settlements r @ [(clock r, Resolved v)]\<rparr>"

definition reject :: "'f run \<Rightarrow> 'f run" where
  "reject r = r\<lparr>settlements := settlements r @ [(clock r, Rejected)]\<rparr>"

text \<open>The three assignments \<^verbatim>\<open>console.log = originalLog\<close>, ... of each branch.\<close>

definition restore :: "'f console \<Rightarrow> 'f run \<Rightarrow> 'f run" where
  "restore original r = r\<lparr>globals := (globals r)\<lparr>console := original\<rparr>\<rparr>"

definition timeout_message :: string where
  "timeout_message = ''Execution timeout: Code took longer than 5 seconds to execute''"

definition rate_limit_message :: string where
  "rate_limit_message =
     ''Please wait before running code again (rate limit: 1 execution per second)''"

text \<open>The callback given to \<^verbatim>\<open>setTimeout\<close>.\<close>

definition onTimeout :: "'f console \<Rightarrow> 'f run \<Rightarrow> 'f run" where
  "onTimeout original r =
     (if \<not> completed r then
        (let r1 = r\<lparr>completed := True\<rparr>;
             r2 = restore original r1
         in resolve \<lparr> output' = logs r2, error = Some timeout_message \<rparr> r2)
      else r)"

text \<open>The statements after \<^verbatim>\<open>restrictedEval(code)\<close> in the \<^verbatim>\<open>try\<close> block.\<close>

definition onReturn :: "'f console \<Rightarrow> 'f run \<Rightarrow> 'f run" where
  "onReturn original r =
     (if \<not> completed r then
        (let r1 = r\<lparr>completed := True\<rparr>;
             r2 = r1\<lparr>timeoutId := None\<rparr>;
             r3 = restore original r2
         in resolve \<lparr> output' = logs r3, error = None \<rparr> r3)
      else r)"

text \<open>
  \<^verbatim>\<open>error instanceof Error ? error.message : String(error)\<close>; \<open>None\<close> when the conversion
  throws.
\<close>

fun message_of :: "thrown \<Rightarrow> string option" where
  "message_of (ErrorInstance message) = Some message"
| "message_of (NonError str) = Some str"
| "message_of Unprintable = None"

text \<open>
  The \<^verbatim>\<open>catch\<close> block. The argument of \<^verbatim>\<open>resolve\<close> is built after the console has been
  restored; when building it throws, the exception leaves the executor and the promise
  is rejected.
\<close>

definition onThrow :: "'f console \<Rightarrow> thrown \<Rightarrow> 'f run \<Rightarrow> 'f run" where
  "onThrow original e r =
     (if \<not> completed r then
        (let r1 = r\<lparr>completed := True\<rparr>;
             r2 = r1\<lparr>timeoutId := None\<rparr>;
             r3 = restore original r2
         in case message_of e of
              Some text \<Rightarrow> resolve \<lparr> output' = logs r3, error = Some (''Error: '' @ text) \<rparr> r3
            | None \<Rightarrow> reject r3)
      else r)"

text \<open>
  \<open>restrictedEval\<close>: the evaluation runs to its end on the caller's thread; its console
  calls go through the bindings in place, and the clock advances by the time it takes.
  The result is \<open>None\<close> when the evaluation never returns; otherwise it says whether
  a value was thrown.
\<close>

definition restrictedEval ::
  "(string \<Rightarrow> evaluation) \<Rightarrow> string \<Rightarrow> 'f run \<Rightarrow> (thrown option \<times> 'f run) option" where
  "restrictedEval engine code r =
     (case engine code of
        Returns calls d \<Rightarrow> Some (None, (fold invoke calls r)\<lparr>clock := clock r + int d\<rparr>)
      | Throws calls e d \<Rightarrow> Some (Some e, (fold invoke calls r)\<lparr>clock := clock r + int d\<rparr>)
      | Diverges \<Rightarrow> None)"

text \<open>
  The function passed to \<^verbatim>\<open>new Promise\<close>: it sets \<^verbatim>\<open>completed\<close>, registers the timer,
  and runs the \<^verbatim>\<open>try\<close>/\<^verbatim>\<open>catch\<close>. It is \<open>None\<close> when it never returns.
\<close>

definition executor ::
  "(string \<Rightarrow> evaluation) \<Rightarrow> string \<Rightarrow> 'f console \<Rightarrow> 'f run \<Rightarrow> 'f run option" where
  "executor engine code original r =
     (let r0 = r\<lparr>completed := False, timeoutId := Some (clock r + EXECUTION_TIMEOUT)\<rparr>
      in case restrictedEval engine code r0 of
           None \<Rightarrow> None
         | Some (None, r1) \<Rightarrow> Some (onReturn original r1)
         | Some (Some e, r1) \<Rightarrow> Some (onThrow original e r1))"

text \<open>
  JavaScript runs one task at a time: a timer callback runs only once the running
  function has returned to the event loop. So the callback of a timer that is still
  pending runs after the executor has returned, at the time it is due or at the current
  time if that is later.
\<close>

definition runTimers :: "'f console \<Rightarrow> 'f run \<Rightarrow> 'f run" where
  "runTimers original r =
     (case timeoutId r of
        None \<Rightarrow> r
      | Some due \<Rightarrow> onTimeout original (r\<lparr>timeoutId := None, clock := max (clock r) due\<rparr>))"

text \<open>
  What a caller gets from one call: the settlements of the returned promise, each with
  its time, and the global state afterwards.
\<close>

record 'f outcome =
  settled :: "(int \<times> settlement) list"
  after :: "'f globals"

text \<open>
  \<open>execute\<close>. The result is \<open>None\<close> when the call never gives control back: the
  evaluation does not return, so nothing that comes after it, the timer callback
  included, ever runs.
\<close>

definition execute ::
  "(string \<Rightarrow> evaluation) \<Rightarrow> int \<Rightarrow> string \<Rightarrow> 'f globals \<Rightarrow> 'f outcome option" where
  "execute engine now code g =
     (case checkRateLimit now g of
        (False, g') \<Rightarrow>
          Some \<lparr> settled =
                   [(now, Resolved \<lparr> output' = [], error = Some rate_limit_message \<rparr>)],
                 after = g' \<rparr>
      | (True, g') \<Rightarrow>
          (let originalConsole = console g';
               r = \<lparr> globals = g'\<lparr>console := capturing\<rparr>, logs = [], completed = False,
                     timeoutId = None, clock = now, settlements = [] \<rparr>
           in case executor engine code originalConsole r of
                None \<Rightarrow> None
              | Some r' \<Rightarrow>
                  (let r'' = runTimers originalConsole r'
                   in Some \<lparr> settled = settlements r'', after = globals r'' \<rparr>)))"

subsection \<open>Vocabulary of the properties\<close>

text \<open>A request is accepted when \<open>checkRateLimit\<close> returns true.\<close>

definition accepted :: "int \<Rightarrow> 'f globals \<Rightarrow> bool" where
  "accepted now g = fst (checkRateLimit now g)"


definition lines_of :: "(console_method \<times> jsvalue list) list \<Rightarrow> string list" where
  "lines_of calls = map (\<lambda>(m, args). capture m args) calls"



subsection \<open>Sample inputs\<close>

text \<open>
  The state of a freshly loaded page: \<^verbatim>\<open>lastExecution = 0\<close> and the browser's own
  console functions.
\<close>

definition page_load :: "string globals" where
  "page_load = \<lparr> lastExecution = 0,
     console = \<lparr> console_log = Native ''log'', console_error = Native ''error'',
                 console_warn = Native ''warn'' \<rparr> \<rparr>"

text \<open>
  Five source texts:
  \<^verbatim>\<open>while (true) {}\<close>,
  \<^verbatim>\<open>const t = Date.now(); while (Date.now() - t < 6000) {}\<close>,
  \<^verbatim>\<open>throw new Error("boom")\<close>,
  \<^verbatim>\<open>console.log("<script>")\<close> and
  \<^verbatim>\<open>console.log({a: "<script>"})\<close>.
\<close>

definition loop_code :: string where
  "loop_code = ''while (true) {}''"

definition six_seconds_code :: string where
  "six_seconds_code = ''const t = Date.now(); while (Date.now() - t < 6000) {}''"

definition boom_code :: string where
  "boom_code = ''throw new Error('' @ [CHR 0x22] @ ''boom'' @ [CHR 0x22] @ '')''"

definition script_code :: string where
  "script_code = ''console.log('' @ [CHR 0x22] @ ''<script>'' @ [CHR 0x22] @ '')''"

definition object_code :: string where
  "object_code = ''console.log({a: '' @ [CHR 0x22] @ ''<script>'' @ [CHR 0x22] @ ''})''"

text \<open>
  The object \<^verbatim>\<open>{a: "<script>"}\<close>: \<^verbatim>\<open>JSON.stringify\<close> with indent 2 gives three lines
  (\<open>CHR 0x0A\<close> is the line feed), \<^verbatim>\<open>String\<close> gives \<^verbatim>\<open>[object Object]\<close>.
\<close>

definition script_object :: jsvalue where
  "script_object =
     ObjectValue
       (Some (''{'' @ [CHR 0x0A] @ ''  '' @ [CHR 0x22] @ ''a'' @ [CHR 0x22] @ '': ''
              @ [CHR 0x22] @ ''<script>'' @ [CHR 0x22] @ [CHR 0x0A] @ ''}''))
       ''[object Object]''"

text \<open>
  What a JavaScript engine does with the five texts. Any other text is treated as the
  empty program; the theorems use this engine at the five texts only.
\<close>

definition sample_engine :: "string \<Rightarrow> evaluation" where
  "sample_engine code =
     (if code = loop_code then Diverges
      else if code = six_seconds_code then Returns [] 6000
      else if code = boom_code then Throws [] (ErrorInstance ''boom'') 0
      else if code = script_code then Returns [(ConsoleLog, [StringValue ''<script>''])] 0
      else if code = object_code then Returns [(ConsoleLog, [script_object])] 0
      else Returns [] 0)"

lemmas sample_defs =
  sample_engine_def loop_code_def six_seconds_code_def boom_code_def script_code_def
  object_code_def

section \<open>Properties of the catalog\<close>

lemma find_by_key_some:
  "find (\<lambda>x. f x = k) xs = Some y \<Longrightarrow> y \<in> set xs \<and> f y = k"
  by (induction xs) (auto split: if_splits)

lemma find_by_key_none:
  "(find (\<lambda>x. f x = k) xs = None) = (k \<notin> f ` set xs)"
  by (induction xs) auto

lemma catalog_ids:
  "map id' allPatterns =
     [''singleton'', ''factory-method'', ''builder'', ''abstract-factory'', ''prototype'',
      ''decorator'', ''adapter'', ''composite'', ''facade'', ''proxy'',
      ''observer'', ''strategy'', ''command'', ''state'']"
  by (simp add: catalog_defs pattern_defs)

lemma catalog_related:
  "concat (map relatedPatterns allPatterns) =
     [''factory-method'', ''abstract-factory'', ''prototype'',
      ''abstract-factory'', ''prototype'', ''singleton'',
      ''abstract-factory'', ''composite'',
      ''factory-method'', ''singleton'', ''prototype'',
      ''abstract-factory'', ''composite'', ''decorator'',
      ''adapter'', ''composite'', ''strategy'',
      ''decorator'', ''proxy'',
      ''decorator'',
      ''adapter'', ''abstract-factory'',
      ''adapter'', ''decorator'',
      ''singleton'',
      ''state'',
      ''composite'', ''prototype'',
      ''strategy'', ''singleton'']"
  by (simp add: catalog_defs pattern_defs)

lemma getPatternById_none_iff:
  "(getPatternById i = None) = (i \<notin> set (map id' allPatterns))"
  by (simp add: getPatternById_def find_by_key_none)

text \<open>
  C5. Cross-reference integrity of the shipped catalog: for every record of
  \<open>allPatterns\<close> and every identifier in its \<open>relatedPatterns\<close>,
  \<open>getPatternById\<close> finds a record, that record is in the catalog and its
  identifier is the one looked up.
\<close>

theorem related_patterns_resolve:
  "\<forall>p \<in> set allPatterns. \<forall>r \<in> set (relatedPatterns p).
     \<exists>q. getPatternById r = Some q \<and> q \<in> set allPatterns \<and> id' q = r"
proof (intro ballI)
  fix p r
  assume p: "p \<in> set allPatterns" and r: "r \<in> set (relatedPatterns p)"
  from p r have "r \<in> set (concat (map relatedPatterns allPatterns))"
    by auto
  then have "r \<in> set (map id' allPatterns)"
    unfolding catalog_related catalog_ids by auto
  then have "getPatternById r \<noteq> None"
    by (simp add: getPatternById_none_iff)
  then obtain q where q: "getPatternById r = Some q"
    by blast
  then have "q \<in> set allPatterns \<and> id' q = r"
    unfolding getPatternById_def by (rule find_by_key_some)
  with q show "\<exists>q. getPatternById r = Some q \<and> q \<in> set allPatterns \<and> id' q = r"
    by blast
qed

theorem related_patterns_resolve_witness:
  "decoratorPattern \<in> set allPatterns
   \<and> ''strategy'' \<in> set (relatedPatterns decoratorPattern)
   \<and> getPatternById ''strategy'' = Some strategyPattern
   \<and> strategyPattern \<in> set allPatterns \<and> id' strategyPattern = ''strategy''"
proof -
  have p: "decoratorPattern \<in> set allPatterns"
    by (simp add: catalog_defs)
  have r: "''strategy'' \<in> set (relatedPatterns decoratorPattern)"
    by (simp add: decoratorPattern_def)
  have g: "getPatternById ''strategy'' = Some strategyPattern"
    by (simp add: getPatternById_def catalog_defs pattern_defs)
  from related_patterns_resolve p r
  have "\<exists>q. getPatternById ''strategy'' = Some q \<and> q \<in> set allPatterns \<and> id' q = ''strategy''"
    by blast
  with g p r show ?thesis
    by simp
qed

text \<open>
  C7. \<open>getPatternById\<close> is a total function into \<open>Pattern option\<close>: for an identifier
  carried by some record of the catalog it returns a record of the catalog whose
  identifier is the queried one, and for any other identifier it returns \<open>None\<close>
  (the \<^verbatim>\<open>undefined\<close> of \<^verbatim>\<open>Array.prototype.find\<close>); there is no third outcome.
\<close>

theorem getPatternById_spec:
  "(i \<in> id' ` set allPatterns \<longrightarrow>
      (\<exists>p. getPatternById i = Some p \<and> p \<in> set allPatterns \<and> id' p = i))
   \<and> (i \<notin> id' ` set allPatterns \<longrightarrow> getPatternById i = None)"
proof (intro conjI impI)
  assume "i \<in> id' ` set allPatterns"
  then have "getPatternById i \<noteq> None"
    by (simp add: getPatternById_none_iff)
  then obtain p where p: "getPatternById i = Some p"
    by blast
  then have "p \<in> set allPatterns \<and> id' p = i"
    unfolding getPatternById_def by (rule find_by_key_some)
  with p show "\<exists>p. getPatternById i = Some p \<and> p \<in> set allPatterns \<and> id' p = i"
    by blast
next
  assume "i \<notin> id' ` set allPatterns"
  then show "getPatternById i = None"
    by (simp add: getPatternById_none_iff)
qed

theorem getPatternById_spec_witness:
  "''facade'' \<in> id' ` set allPatterns
   \<and> getPatternById ''facade'' = Some facadePattern \<and> id' facadePattern = ''facade''
   \<and> ''visitor'' \<notin> id' ` set allPatterns
   \<and> getPatternById ''visitor'' = None"
proof -
  have ids: "id' ` set allPatterns = set (map id' allPatterns)"
    by simp
  have a: "''facade'' \<in> id' ` set allPatterns"
    unfolding ids catalog_ids by simp
  have b: "''visitor'' \<notin> id' ` set allPatterns"
    unfolding ids catalog_ids by simp
  have g: "getPatternById ''facade'' = Some facadePattern"
    by (simp add: getPatternById_def catalog_defs pattern_defs)
  from getPatternById_spec [of "''facade''"] a
  have "\<exists>p. getPatternById ''facade'' = Some p \<and> p \<in> set allPatterns \<and> id' p = ''facade''"
    by blast
  moreover from getPatternById_spec [of "''visitor''"] b
  have "getPatternById ''visitor'' = None"
    by blast
  ultimately show ?thesis
    using a b g by simp
qed



section \<open>Properties of the sandbox\<close>

subsection \<open>Escaping\<close>











subsection \<open>What one call of execute gives\<close>

lemma accepted_iff: "accepted now g = (\<not> now - lastExecution g < MIN_EXECUTION_INTERVAL)"
  by (simp add: accepted_def checkRateLimit_def)

lemma bound_to_capturing: "bound_to m capturing = Capture m"
  by (cases m) (simp_all add: capturing_def)

lemma invoke_capturing:
  "console (globals r) = capturing \<Longrightarrow>
   invoke (m, args) r = r\<lparr>logs := logs r @ [capture m args]\<rparr>"
  by (simp add: bound_to_capturing)

text \<open>While the capturing functions are installed, every console call appends its line.\<close>

lemma fold_invoke_capturing:
  "console (globals r) = capturing \<Longrightarrow>
   fold invoke calls r = r\<lparr>logs := logs r @ lines_of calls\<rparr>"
proof (induction calls arbitrary: r)
  case Nil
  show ?case by (simp add: lines_of_def)
next
  case (Cons c calls)
  obtain m args where c: "c = (m, args)"
    by (cases c)
  let ?r = "r\<lparr>logs := logs r @ [capture m args]\<rparr>"
  have step: "invoke (m, args) r = ?r"
    using Cons.prems by (rule invoke_capturing)
  have "console (globals ?r) = capturing"
    using Cons.prems by simp
  then have "fold invoke calls ?r = ?r\<lparr>logs := logs ?r @ lines_of calls\<rparr>"
    by (rule Cons.IH)
  then show ?case
    unfolding c by (simp add: step lines_of_def del: invoke.simps)
qed

lemmas execute_unfold =
  execute_def checkRateLimit_def accepted_iff executor_def restrictedEval_def Let_def
  fold_invoke_capturing onReturn_def onThrow_def restore_def resolve_def reject_def
  runTimers_def

lemma execute_rejected:
  "\<not> accepted now g \<Longrightarrow>
   execute engine now code g =
     Some \<lparr> settled = [(now, Resolved \<lparr> output' = [], error = Some rate_limit_message \<rparr>)],
            after = g \<rparr>"
  by (simp add: execute_def checkRateLimit_def accepted_iff)

lemma execute_diverges:
  assumes "accepted now g" and "engine code = Diverges"
  shows "execute engine now code g = None"
  using assms by (simp add: execute_unfold)

lemma execute_returns:
  assumes "accepted now g" and "engine code = Returns calls d"
  shows "execute engine now code g =
     Some \<lparr> settled = [(now + int d, Resolved \<lparr> output' = lines_of calls, error = None \<rparr>)],
            after = g\<lparr>lastExecution := now\<rparr> \<rparr>"
  using assms by (simp add: execute_unfold)

lemma execute_throws:
  assumes "accepted now g" and "engine code = Throws calls e d"
    and "message_of e = Some text"
  shows "execute engine now code g =
     Some \<lparr> settled = [(now + int d,
                Resolved \<lparr> output' = lines_of calls, error = Some (''Error: '' @ text) \<rparr>)],
            after = g\<lparr>lastExecution := now\<rparr> \<rparr>"
  using assms by (simp add: execute_unfold)

lemma execute_throws_unprintable:
  assumes "accepted now g" and "engine code = Throws calls Unprintable d"
  shows "execute engine now code g =
     Some \<lparr> settled = [(now + int d, Rejected)], after = g\<lparr>lastExecution := now\<rparr> \<rparr>"
  using assms by (simp add: execute_unfold)

text \<open>
  The four lemmas above cover every accepted call: an accepted call that gives control
  back has one of three outcomes.
\<close>

lemma accepted_outcome:
  assumes "accepted now g" and "execute engine now code g = Some out"
  obtains
    (returned) calls d where "engine code = Returns calls d"
      and "out = \<lparr> settled = [(now + int d,
                      Resolved \<lparr> output' = lines_of calls, error = None \<rparr>)],
                    after = g\<lparr>lastExecution := now\<rparr> \<rparr>"
  | (threw) calls e d msg where "engine code = Throws calls e d"
      and "message_of e = Some msg"
      and "out = \<lparr> settled = [(now + int d,
                      Resolved \<lparr> output' = lines_of calls,
                                 error = Some (''Error: '' @ msg) \<rparr>)],
                    after = g\<lparr>lastExecution := now\<rparr> \<rparr>"
  | (unprintable) calls d where "engine code = Throws calls Unprintable d"
      and "out = \<lparr> settled = [(now + int d, Rejected)],
                    after = g\<lparr>lastExecution := now\<rparr> \<rparr>"
proof (cases "engine code")
  case (Returns calls d)
  with assms have "out = \<lparr> settled = [(now + int d,
      Resolved \<lparr> output' = lines_of calls, error = None \<rparr>)],
      after = g\<lparr>lastExecution := now\<rparr> \<rparr>"
    by (simp add: execute_returns [where calls = calls and d = d])
  with Returns show ?thesis
    by (rule returned)
next
  case (Throws calls e d)
  show ?thesis
  proof (cases e)
    case (ErrorInstance message)
    then have m: "message_of e = Some message"
      by simp
    from assms Throws m have "out = \<lparr> settled = [(now + int d,
        Resolved \<lparr> output' = lines_of calls, error = Some (''Error: '' @ message) \<rparr>)],
        after = g\<lparr>lastExecution := now\<rparr> \<rparr>"
      by (simp add: execute_throws [where calls = calls and d = d and e = e])
    with Throws m show ?thesis
      by (rule threw)
  next
    case (NonError str)
    then have m: "message_of e = Some str"
      by simp
    from assms Throws m have "out = \<lparr> settled = [(now + int d,
        Resolved \<lparr> output' = lines_of calls, error = Some (''Error: '' @ str) \<rparr>)],
        after = g\<lparr>lastExecution := now\<rparr> \<rparr>"
      by (simp add: execute_throws [where calls = calls and d = d and e = e])
    with Throws m show ?thesis
      by (rule threw)
  next
    case Unprintable
    with Throws have t: "engine code = Throws calls Unprintable d"
      by simp
    with assms have "out = \<lparr> settled = [(now + int d, Rejected)],
        after = g\<lparr>lastExecution := now\<rparr> \<rparr>"
      by (simp add: execute_throws_unprintable [where calls = calls and d = d])
    with t show ?thesis
      by (rule unprintable)
  qed
next
  case Diverges
  with assms show ?thesis
    by (simp add: execute_diverges)
qed

text \<open>
  The callback of the timer never finds \<open>completed\<close> false, so no call reports the
  timeout, whatever the engine and the source text.
\<close>

lemma timeout_never_reported:
  assumes "execute engine now code g = Some out" and "(t, Resolved v) \<in> set (settled out)"
  shows "error v \<noteq> Some timeout_message"
proof (cases "accepted now g")
  case False
  with assms show ?thesis
    by (auto simp: execute_rejected rate_limit_message_def timeout_message_def)
next
  case True
  from True assms(1) show ?thesis
  proof (cases rule: accepted_outcome)
    case (returned calls d)
    with assms(2) show ?thesis by auto
  next
    case (threw calls e d msg)
    with assms(2) show ?thesis by (auto simp: timeout_message_def)
  next
    case (unprintable calls d)
    with assms(2) show ?thesis by auto
  qed
qed

text \<open>
  An accepted call whose evaluation returns, or throws a value that can be turned into
  text, settles its promise exactly once, with a result, when the evaluation ends.
\<close>

lemma one_result_when_evaluation_ends:
  assumes "accepted now g"
    and "engine code = Returns calls d
         \<or> (engine code = Throws calls e d \<and> message_of e \<noteq> None)"
  shows "\<exists>out v. execute engine now code g = Some out
           \<and> settled out = [(now + int d, Resolved v)]
           \<and> output' v = lines_of calls"
  using assms(2)
proof
  assume "engine code = Returns calls d"
  with assms(1) show ?thesis
    by (simp add: execute_returns [where calls = calls and d = d])
next
  assume "engine code = Throws calls e d \<and> message_of e \<noteq> None"
  then obtain msg where "engine code = Throws calls e d" and "message_of e = Some msg"
    by blast
  with assms(1) show ?thesis
    by (simp add: execute_throws [where calls = calls and d = d and e = e])
qed






lemma page_load_accepts: "accepted 1700000000000 page_load"
  by (simp add: accepted_iff page_load_def MIN_EXECUTION_INTERVAL_def)

subsection \<open>The claims about the sandbox\<close>

text \<open>
  C1 (the timeout). The claim asks that a source text whose execution does not finish
  within 5000 ms is answered by 5000 ms with the timeout error. The code does not do
  this. On \<^verbatim>\<open>while (true) {}\<close> the call never gives control back, so the promise is
  never settled; on a text that keeps the thread busy for six seconds and then returns,
  the promise is resolved after 6000 ms with a success, not with the timeout error.
\<close>

theorem timeout_not_enforced:
  "execute sample_engine 1700000000000 loop_code page_load = None
   \<and> execute sample_engine 1700000000000 six_seconds_code page_load =
       Some \<lparr> settled = [(1700000006000, Resolved \<lparr> output' = [], error = None \<rparr>)],
              after = page_load\<lparr>lastExecution := 1700000000000\<rparr> \<rparr>"
proof
  have "sample_engine loop_code = Diverges"
    by (simp add: sample_defs)
  with page_load_accepts show "execute sample_engine 1700000000000 loop_code page_load = None"
    by (simp add: execute_diverges)
next
  have "sample_engine six_seconds_code = Returns [] 6000"
    by (simp add: sample_defs)
  with page_load_accepts
  have "execute sample_engine 1700000000000 six_seconds_code page_load =
      Some \<lparr> settled = [(1700000000000 + int 6000,
                 Resolved \<lparr> output' = lines_of [], error = None \<rparr>)],
             after = page_load\<lparr>lastExecution := 1700000000000\<rparr> \<rparr>"
    by (simp add: execute_returns [where calls = "[]" and d = 6000])
  then show "execute sample_engine 1700000000000 six_seconds_code page_load =
      Some \<lparr> settled = [(1700000006000, Resolved \<lparr> output' = [], error = None \<rparr>)],
             after = page_load\<lparr>lastExecution := 1700000000000\<rparr> \<rparr>"
    by (simp add: lines_of_def)
qed








text \<open>
  C6 (one result per accepted request). The claim asks for exactly one result for
  every accepted request. The accepted request \<^verbatim>\<open>while (true) {}\<close> gets none: there is
  no outcome at all for it, because the call never gives control back.
\<close>

theorem looping_request_gets_no_result:
  "accepted 1700000000000 page_load
   \<and> (\<forall>out. execute sample_engine 1700000000000 loop_code page_load \<noteq> Some out)"
proof -
  have "sample_engine loop_code = Diverges"
    by (simp add: sample_defs)
  with page_load_accepts
  have "execute sample_engine 1700000000000 loop_code page_load = None"
    by (simp add: execute_diverges)
  with page_load_accepts show ?thesis
    by simp
qed





end
